theory Spec2Isabelle
  imports Main
begin

section \<open>Data model of \<open>server/storage.ts\<close>\<close>

text \<open>
  A JavaScript \<open>Date\<close> is used by the store only through \<open>new Date()\<close> and
  \<open>getTime()\<close>; it is modelled by its epoch value in milliseconds.
\<close>

type_synonym date = int

text \<open>
  Modelled from the spec: the record types \<open>User\<close>, \<open>UpsertUser\<close>, \<open>ChatSession\<close>,
  \<open>InsertChatSession\<close>, \<open>Message\<close> and \<open>InsertMessage\<close> are imported by the source from
  \<open>@shared/schema\<close>, which is not part of the source tree. Their shape follows the table
  shapes of the specification: Users(id, profile fields, createdAt, updatedAt),
  Sessions(id, userId, metadata, createdAt, updatedAt), Messages(id, sessionId, content
  fields, timestamp). The fields that are opaque to the store are one type parameter each.
  The insert types carry what the caller supplies; identifiers of sessions and messages and
  all timestamps are supplied by the store.
\<close>

record 'p UpsertUser =
  uu_id :: string
  uu_profile :: 'p

record 'p User =
  u_id :: string
  u_profile :: 'p
  u_createdAt :: date
  u_updatedAt :: date

record 'm InsertChatSession =
  is_userId :: string
  is_meta :: 'm

record 'm ChatSession =
  s_id :: string
  s_userId :: string
  s_meta :: 'm
  s_createdAt :: date
  s_updatedAt :: date

record 'c InsertMessage =
  im_sessionId :: string
  im_content :: 'c

record 'c Message =
  m_id :: string
  m_sessionId :: string
  m_content :: 'c
  m_timestamp :: date

text \<open>
  The five private \<open>Map\<close> fields of class \<open>MemoryStorage\<close>. The code never iterates over
  a \<open>Map\<close>, so a partial function is enough. Every key of the two index maps owns its own
  array (a fresh \<open>[]\<close> on first use), so no two entries alias and the arrays are values.
\<close>

record ('p, 'm, 'c) MemoryStorage =
  users :: "string \<rightharpoonup> 'p User"
  chatSessions :: "string \<rightharpoonup> 'm ChatSession"
  messages :: "string \<rightharpoonup> 'c Message"
  sessionsByUser :: "string \<rightharpoonup> string list"
  messagesBySession :: "string \<rightharpoonup> string list"

definition new_MemoryStorage :: "('p, 'm, 'c) MemoryStorage" where
  "new_MemoryStorage =
     \<lparr>users = Map.empty, chatSessions = Map.empty, messages = Map.empty,
      sessionsByUser = Map.empty, messagesBySession = Map.empty\<rparr>"

section \<open>Generated identifiers\<close>

text \<open>
  \<open>`session_${Date.now()}_${Math.random().toString(36).substr(2, 9)}`\<close>: the clock reading
  is rendered in decimal, as a template literal renders an integral number. The random
  suffix is the result of a floating-point computation outside the store; it enters the
  model as the string \<open>rnd\<close>. \<open>digits\<close> renders a non-negative integer, \<open>number_text\<close> puts
  the sign in front of a negative one.
\<close>

definition digit_char :: "int \<Rightarrow> char" where
  "digit_char d = ''0123456789'' ! nat d"

function digits :: "int \<Rightarrow> string" where
  "digits n = (if n < 10 then [digit_char n] else digits (n div 10) @ [digit_char (n mod 10)])"
  by pat_completeness auto
termination
  by (relation "measure nat") auto

declare digits.simps [simp del]

definition number_text :: "int \<Rightarrow> string" where
  "number_text i = (if i < 0 then CHR ''-'' # digits (- i) else digits i)"

definition session_ident :: "int \<Rightarrow> string \<Rightarrow> string" where
  "session_ident t rnd = ''session_'' @ number_text t @ ''_'' @ rnd"

definition msg_ident :: "int \<Rightarrow> string \<Rightarrow> string" where
  "msg_ident t rnd = ''msg_'' @ number_text t @ ''_'' @ rnd"

section \<open>Operations of \<open>MemoryStorage\<close>\<close>

text \<open>The idiom \<open>this.index.get(key) || []\<close>: an empty array is truthy, so only a missing
  entry is replaced.\<close>

definition get_or_empty :: "(string \<rightharpoonup> string list) \<Rightarrow> string \<Rightarrow> string list" where
  "get_or_empty index k = (case index k of Some l \<Rightarrow> l | None \<Rightarrow> [])"

text \<open>
  The development covers class \<open>MemoryStorage\<close>, the store the module exports as \<open>storage\<close>.
  Class \<open>DatabaseStorage\<close> forwards each call to a relational database through a query
  builder; neither is part of the source tree.

  Every operation takes the store last and, when it mutates, returns the result paired with
  the new store. The clock and the random source are read by the code; their readings are
  arguments: \<open>t\<close> is \<open>Date.now()\<close>, \<open>rnd\<close> the random suffix and \<open>now\<close> is \<open>new Date()\<close>.
\<close>

definition getUser :: "string \<Rightarrow> ('p, 'm, 'c) MemoryStorage \<Rightarrow> 'p User option" where
  "getUser i st = users st i"

definition upsertUser ::
  "'p UpsertUser \<Rightarrow> date \<Rightarrow> ('p, 'm, 'c) MemoryStorage \<Rightarrow> 'p User \<times> ('p, 'm, 'c) MemoryStorage" where
  "upsertUser userData now st =
     (let user = \<lparr>u_id = uu_id userData, u_profile = uu_profile userData,
                  u_createdAt = (case users st (uu_id userData) of
                                   Some old \<Rightarrow> u_createdAt old | None \<Rightarrow> now),
                  u_updatedAt = now\<rparr>
      in (user, st\<lparr>users := (users st)(uu_id userData \<mapsto> user)\<rparr>))"

definition createChatSession ::
  "'m InsertChatSession \<Rightarrow> int \<Rightarrow> string \<Rightarrow> date \<Rightarrow> ('p, 'm, 'c) MemoryStorage
     \<Rightarrow> 'm ChatSession \<times> ('p, 'm, 'c) MemoryStorage" where
  "createChatSession insertSession t rnd now st =
     (let i = session_ident t rnd;
          session = \<lparr>s_id = i, s_userId = is_userId insertSession,
                     s_meta = is_meta insertSession, s_createdAt = now, s_updatedAt = now\<rparr>;
          userSessions = get_or_empty (sessionsByUser st) (is_userId insertSession) @ [i]
      in (session,
          st\<lparr>chatSessions := (chatSessions st)(i \<mapsto> session),
             sessionsByUser := (sessionsByUser st)(is_userId insertSession \<mapsto> userSessions)\<rparr>))"

definition getChatSession :: "string \<Rightarrow> ('p, 'm, 'c) MemoryStorage \<Rightarrow> 'm ChatSession option" where
  "getChatSession i st = chatSessions st i"

text \<open>
  \<open>Array.prototype.sort\<close> is stable, and the comparator \<open>b.updatedAt - a.updatedAt\<close> orders by
  descending \<open>updatedAt\<close>; \<open>sort_key\<close> is the stable sort by ascending key, here the negated
  time. \<open>List.map_filter\<close> is the \<open>.map(get).filter(x => x !== undefined)\<close> of the source.
\<close>

definition getAllChatSessions :: "string \<Rightarrow> ('p, 'm, 'c) MemoryStorage \<Rightarrow> 'm ChatSession list" where
  "getAllChatSessions userId st =
     (let sessionIds = get_or_empty (sessionsByUser st) userId
      in sort_key (\<lambda>x. - s_updatedAt x) (List.map_filter (chatSessions st) sessionIds))"

definition createMessage ::
  "'c InsertMessage \<Rightarrow> int \<Rightarrow> string \<Rightarrow> date \<Rightarrow> ('p, 'm, 'c) MemoryStorage
     \<Rightarrow> 'c Message \<times> ('p, 'm, 'c) MemoryStorage" where
  "createMessage insertMessage t rnd now st =
     (let i = msg_ident t rnd;
          message = \<lparr>m_id = i, m_sessionId = im_sessionId insertMessage,
                     m_content = im_content insertMessage, m_timestamp = now\<rparr>;
          sessionMessages = get_or_empty (messagesBySession st) (im_sessionId insertMessage) @ [i];
          st1 = st\<lparr>messages := (messages st)(i \<mapsto> message),
                   messagesBySession :=
                     (messagesBySession st)(im_sessionId insertMessage \<mapsto> sessionMessages)\<rparr>
      in (message,
          (case chatSessions st1 (im_sessionId insertMessage) of
             Some session \<Rightarrow>
               st1\<lparr>chatSessions :=
                     (chatSessions st1)(im_sessionId insertMessage \<mapsto> session\<lparr>s_updatedAt := now\<rparr>)\<rparr>
           | None \<Rightarrow> st1)))"

definition getMessagesBySessionId :: "string \<Rightarrow> ('p, 'm, 'c) MemoryStorage \<Rightarrow> 'c Message list" where
  "getMessagesBySessionId sessionId st =
     (let messageIds = get_or_empty (messagesBySession st) sessionId
      in sort_key m_timestamp (List.map_filter (messages st) messageIds))"

text \<open>
  \<open>indexOf\<close> followed by \<open>splice(index, 1)\<close> removes the first occurrence: \<open>remove1\<close>. When
  the identifier is not in the array the index map is not written.
\<close>

definition deleteMessage :: "string \<Rightarrow> ('p, 'm, 'c) MemoryStorage \<Rightarrow> ('p, 'm, 'c) MemoryStorage" where
  "deleteMessage i st =
     (case messages st i of
        None \<Rightarrow> st
      | Some message \<Rightarrow>
          (let st1 = st\<lparr>messages := (messages st)(i := None)\<rparr>;
               sessionMessages = get_or_empty (messagesBySession st1) (m_sessionId message)
           in if i \<in> set sessionMessages
              then st1\<lparr>messagesBySession :=
                         (messagesBySession st1)(m_sessionId message \<mapsto> remove1 i sessionMessages)\<rparr>
              else st1))"

definition deleteChatSession :: "string \<Rightarrow> ('p, 'm, 'c) MemoryStorage \<Rightarrow> ('p, 'm, 'c) MemoryStorage" where
  "deleteChatSession i st =
     (case chatSessions st i of
        None \<Rightarrow> st
      | Some session \<Rightarrow>
          (let messageIds = get_or_empty (messagesBySession st) i;
               st1 = st\<lparr>messages := fold (\<lambda>msgId ms. ms(msgId := None)) messageIds (messages st)\<rparr>;
               st2 = st1\<lparr>messagesBySession := (messagesBySession st1)(i := None)\<rparr>;
               st3 = st2\<lparr>chatSessions := (chatSessions st2)(i := None)\<rparr>;
               userSessions = get_or_empty (sessionsByUser st3) (s_userId session)
           in if i \<in> set userSessions
              then st3\<lparr>sessionsByUser :=
                         (sessionsByUser st3)(s_userId session \<mapsto> remove1 i userSessions)\<rparr>
              else st3))"

section \<open>Sequences of interface operations\<close>

text \<open>
  The mutating operations of the \<open>IStorage\<close> interface, with the clock and random readings
  each call makes. The four read operations return a value and leave the store as it is, so
  a state is reachable exactly when a list of these operations leads to it from the store
  that \<open>new MemoryStorage()\<close> builds.
\<close>

datatype ('p, 'm, 'c) operation =
    UpsertUserOp "'p UpsertUser" date
  | CreateChatSessionOp "'m InsertChatSession" int string date
  | CreateMessageOp "'c InsertMessage" int string date
  | DeleteMessageOp string
  | DeleteChatSessionOp string

fun step :: "('p, 'm, 'c) operation \<Rightarrow> ('p, 'm, 'c) MemoryStorage \<Rightarrow> ('p, 'm, 'c) MemoryStorage" where
  "step (UpsertUserOp userData now) st = snd (upsertUser userData now st)"
| "step (CreateChatSessionOp insertSession t rnd now) st = snd (createChatSession insertSession t rnd now st)"
| "step (CreateMessageOp insertMessage t rnd now) st = snd (createMessage insertMessage t rnd now st)"
| "step (DeleteMessageOp i) st = deleteMessage i st"
| "step (DeleteChatSessionOp i) st = deleteChatSession i st"

definition run :: "('p, 'm, 'c) operation list \<Rightarrow> ('p, 'm, 'c) MemoryStorage \<Rightarrow> ('p, 'm, 'c) MemoryStorage" where
  "run ops st = fold step ops st"

text \<open>
  A creation generates a fresh identifier when the identifier it builds from its clock and
  random readings is not a key of the primary map it is about to write. A list of
  operations is free of session collisions when each \<open>createChatSession\<close> in it generates a
  fresh identifier in the store it is applied to, and free of message collisions when each
  \<open>createMessage\<close> does.
\<close>

fun fresh_session_id :: "('p, 'm, 'c) operation \<Rightarrow> ('p, 'm, 'c) MemoryStorage \<Rightarrow> bool" where
  "fresh_session_id (CreateChatSessionOp insertSession t rnd now) st =
     (chatSessions st (session_ident t rnd) = None)"
| "fresh_session_id _ st = True"

fun fresh_message_id :: "('p, 'm, 'c) operation \<Rightarrow> ('p, 'm, 'c) MemoryStorage \<Rightarrow> bool" where
  "fresh_message_id (CreateMessageOp insertMessage t rnd now) st =
     (messages st (msg_ident t rnd) = None)"
| "fresh_message_id _ st = True"

fun no_session_collision :: "('p, 'm, 'c) operation list \<Rightarrow> ('p, 'm, 'c) MemoryStorage \<Rightarrow> bool" where
  "no_session_collision [] st = True"
| "no_session_collision (x # xs) st = (fresh_session_id x st \<and> no_session_collision xs (step x st))"

fun no_message_collision :: "('p, 'm, 'c) operation list \<Rightarrow> ('p, 'm, 'c) MemoryStorage \<Rightarrow> bool" where
  "no_message_collision [] st = True"
| "no_message_collision (x # xs) st = (fresh_message_id x st \<and> no_message_collision xs (step x st))"

section \<open>Insertion order\<close>

text \<open>
  The order in which the live sessions were inserted, read off the list of operations and
  not off the store: every \<open>createChatSession\<close> puts the identifier it generates, with the
  user it is for, at the end of the log, and \<open>deleteChatSession\<close> strikes the deleted
  identifier out. The insertion order of a user's sessions is the log restricted to that
  user.
\<close>

fun log_step :: "('p, 'm, 'c) operation \<Rightarrow> (string \<times> string) list \<Rightarrow> (string \<times> string) list" where
  "log_step (CreateChatSessionOp insertSession t rnd now) log =
     log @ [(session_ident t rnd, is_userId insertSession)]"
| "log_step (DeleteChatSessionOp i) log = filter (\<lambda>e. fst e \<noteq> i) log"
| "log_step _ log = log"

definition creation_log :: "('p, 'm, 'c) operation list \<Rightarrow> (string \<times> string) list" where
  "creation_log ops = fold log_step ops []"

definition insertion_order :: "('p, 'm, 'c) operation list \<Rightarrow> string \<Rightarrow> string list" where
  "insertion_order ops userId = map fst (filter (\<lambda>e. snd e = userId) (creation_log ops))"

text \<open>The sessions-by-user index agrees with a log when every entry is the log restricted
  to that user.\<close>

definition index_follows_log :: "('p, 'm, 'c) MemoryStorage \<Rightarrow> (string \<times> string) list \<Rightarrow> bool" where
  "index_follows_log st log \<longleftrightarrow>
     (\<forall>u. get_or_empty (sessionsByUser st) u = map fst (filter (\<lambda>e. snd e = u) log))"

section \<open>Consistency of the primary maps and the indexes\<close>

text \<open>
  Every record of a primary map is stored under its own identifier, and that identifier is
  in the index entry of the record's owner.
\<close>

definition index_consistent :: "('p, 'm, 'c) MemoryStorage \<Rightarrow> bool" where
  "index_consistent st \<longleftrightarrow>
     (\<forall>k x. chatSessions st k = Some x \<longrightarrow>
        s_id x = k \<and> k \<in> set (get_or_empty (sessionsByUser st) (s_userId x))) \<and>
     (\<forall>k m. messages st k = Some m \<longrightarrow>
        m_id m = k \<and> k \<in> set (get_or_empty (messagesBySession st) (m_sessionId m)))"

text \<open>
  The converse, for each of the two indexes: an index entry lists no identifier twice, and
  each identifier it lists resolves to a record of that owner.
\<close>

definition sessions_exact :: "('p, 'm, 'c) MemoryStorage \<Rightarrow> bool" where
  "sessions_exact st \<longleftrightarrow>
     (\<forall>u. distinct (get_or_empty (sessionsByUser st) u) \<and>
        (\<forall>k \<in> set (get_or_empty (sessionsByUser st) u).
           \<exists>x. chatSessions st k = Some x \<and> s_userId x = u))"

definition messages_exact :: "('p, 'm, 'c) MemoryStorage \<Rightarrow> bool" where
  "messages_exact st \<longleftrightarrow>
     (\<forall>sid. distinct (get_or_empty (messagesBySession st) sid) \<and>
        (\<forall>k \<in> set (get_or_empty (messagesBySession st) sid).
           \<exists>m. messages st k = Some m \<and> m_sessionId m = sid))"

section \<open>Example stores\<close>

text \<open>One user with two sessions.\<close>

definition setup_ops :: "(string, string, string) operation list" where
  "setup_ops =
     [UpsertUserOp \<lparr>uu_id = ''u1'', uu_profile = ''Ann''\<rparr> 1700000000100,
      CreateChatSessionOp \<lparr>is_userId = ''u1'', is_meta = ''first''\<rparr>
            1700000000110 ''a1k9x2m4q'' 1700000000110,
      CreateChatSessionOp \<lparr>is_userId = ''u1'', is_meta = ''second''\<rparr>
            1700000000120 ''b2r7t5w8z'' 1700000000120]"

definition setup_store :: "(string, string, string) MemoryStorage" where
  "setup_store = run setup_ops new_MemoryStorage"

text \<open>
  The first session then receives two messages, which moves it in front of the second in
  the listing.
\<close>

definition example_ops :: "(string, string, string) operation list" where
  "example_ops = setup_ops @
     [CreateMessageOp \<lparr>im_sessionId = ''session_1700000000110_a1k9x2m4q'', im_content = ''hello''\<rparr>
           1700000000130 ''c3p0v6n1y'' 1700000000130,
      CreateMessageOp \<lparr>im_sessionId = ''session_1700000000110_a1k9x2m4q'', im_content = ''again''\<rparr>
            1700000000140 ''d4h8j3s5u'' 1700000000140]"

definition example_store :: "(string, string, string) MemoryStorage" where
  "example_store = run example_ops new_MemoryStorage"

text \<open>
  Three sessions created within one clock reading and a later fourth one; the second is
  then deleted.
\<close>

definition tie_ops :: "(string, string, string) operation list" where
  "tie_ops =
     [CreateChatSessionOp \<lparr>is_userId = ''u1'', is_meta = ''a''\<rparr>
        1700000000200 ''a1k9x2m4q'' 1700000000200,
      CreateChatSessionOp \<lparr>is_userId = ''u1'', is_meta = ''b''\<rparr>
        1700000000200 ''b2r7t5w8z'' 1700000000200,
      CreateChatSessionOp \<lparr>is_userId = ''u1'', is_meta = ''c''\<rparr>
        1700000000200 ''c3p0v6n1y'' 1700000000200,
      CreateChatSessionOp \<lparr>is_userId = ''u1'', is_meta = ''d''\<rparr>
        1700000000201 ''d4h8j3s5u'' 1700000000201,
      DeleteChatSessionOp ''session_1700000000200_b2r7t5w8z'']"

section \<open>Basic facts about the operations\<close>

lemma get_or_empty_upd [simp]:
  "get_or_empty (f(k \<mapsto> l)) k' = (if k' = k then l else get_or_empty f k')"
  "get_or_empty (f(k := None)) k' = (if k' = k then [] else get_or_empty f k')"
  by (simp_all add: get_or_empty_def)

lemma get_or_empty_empty [simp]: "get_or_empty Map.empty k = []"
  by (simp add: get_or_empty_def)

text \<open>The \<open>forEach\<close> of \<open>deleteChatSession\<close> removes exactly the listed keys.\<close>

lemma fold_delete_apply:
  "fold (\<lambda>msgId ms. ms(msgId := None)) ks f k' = (if k' \<in> set ks then None else f k')"
  by (induction ks arbitrary: f) auto

lemma run_Nil [simp]: "run [] st = st"
  by (simp add: run_def)

lemma run_Cons [simp]: "run (x # xs) st = run xs (step x st)"
  by (simp add: run_def)

lemma run_append: "run (xs @ ys) st = run ys (run xs st)"
  by (simp add: run_def)

section \<open>The indexes stay consistent\<close>

lemma new_index_consistent: "index_consistent new_MemoryStorage"
  by (simp add: index_consistent_def new_MemoryStorage_def)

lemma step_index_consistent:
  "index_consistent st \<Longrightarrow> index_consistent (step x st)"
  apply (cases x)
  apply (auto simp: index_consistent_def upsertUser_def createChatSession_def createMessage_def
      deleteMessage_def deleteChatSession_def Let_def fold_delete_apply
      split: option.splits if_splits)
  apply (metis (no_types))+
  done

lemma run_index_consistent:
  "index_consistent st \<Longrightarrow> index_consistent (run ops st)"
  by (induction ops arbitrary: st) (simp_all add: step_index_consistent)

text \<open>
  Claim C7. Whatever list of interface operations is applied to the empty store, and
  whatever the clock and the random source return on the way, in the resulting store every
  session of the session map is stored under its identifier and that identifier is in the
  sessions-by-user entry of the session's user, and every message of the message map is
  stored under its identifier and that identifier is in the messages-by-session entry of
  the message's session.
\<close>

theorem reachable_index_consistent:
  "index_consistent (run ops new_MemoryStorage)"
  by (rule run_index_consistent [OF new_index_consistent])

theorem reachable_index_consistent_witness:
  "chatSessions example_store ''session_1700000000120_b2r7t5w8z'' =
     Some \<lparr>s_id = ''session_1700000000120_b2r7t5w8z'', s_userId = ''u1'', s_meta = ''second'',
           s_createdAt = 1700000000120, s_updatedAt = 1700000000120\<rparr> \<and>
   ''session_1700000000120_b2r7t5w8z'' \<in> set (get_or_empty (sessionsByUser example_store) ''u1'') \<and>
   index_consistent example_store"
proof -
  have "chatSessions example_store ''session_1700000000120_b2r7t5w8z'' =
     Some \<lparr>s_id = ''session_1700000000120_b2r7t5w8z'', s_userId = ''u1'', s_meta = ''second'',
           s_createdAt = 1700000000120, s_updatedAt = 1700000000120\<rparr>"
    by code_simp
  moreover have "''session_1700000000120_b2r7t5w8z'' \<in> set (get_or_empty (sessionsByUser example_store) ''u1'')"
    by code_simp
  moreover have "index_consistent example_store"
    unfolding example_store_def by (rule reachable_index_consistent)
  ultimately show ?thesis by simp
qed

section \<open>Deleting what is not there\<close>

text \<open>
  Claim C8. For an identifier that is not a key of the message map, \<open>deleteMessage\<close> returns
  the store it was given, and for an identifier that is not a key of the session map so does
  \<open>deleteChatSession\<close>: users, sessions, messages and both indexes are all unchanged. Neither
  function has a failing branch.
\<close>

theorem delete_absent_is_noop:
  "(messages st i = None \<longrightarrow> deleteMessage i st = st) \<and>
   (chatSessions st i = None \<longrightarrow> deleteChatSession i st = st)"
  by (simp add: deleteMessage_def deleteChatSession_def)

theorem delete_absent_is_noop_witness:
  "messages example_store ''msg_1700000000999_zz9y8x7w6'' = None \<and>
   chatSessions example_store ''msg_1700000000999_zz9y8x7w6'' = None \<and>
   deleteMessage ''msg_1700000000999_zz9y8x7w6'' example_store = example_store \<and>
   deleteChatSession ''msg_1700000000999_zz9y8x7w6'' example_store = example_store"
proof -
  have m: "messages example_store ''msg_1700000000999_zz9y8x7w6'' = None"
    by code_simp
  have c: "chatSessions example_store ''msg_1700000000999_zz9y8x7w6'' = None"
    by code_simp
  from m c delete_absent_is_noop [of example_store "''msg_1700000000999_zz9y8x7w6''"]
  show ?thesis by simp
qed

section \<open>Upserting users\<close>

lemma step_keeps_createdAt:
  "users st k = Some u \<Longrightarrow> \<exists>u'. users (step x st) k = Some u' \<and> u_createdAt u' = u_createdAt u"
  by (cases x)
    (auto simp: upsertUser_def createChatSession_def createMessage_def deleteMessage_def
      deleteChatSession_def Let_def split: option.splits)

lemma run_keeps_createdAt:
  "users st k = Some u \<Longrightarrow> \<exists>u'. users (run ops st) k = Some u' \<and> u_createdAt u' = u_createdAt u"
proof (induction ops arbitrary: st u)
  case Nil
  then show ?case by simp
next
  case (Cons x xs)
  from step_keeps_createdAt [OF Cons.prems, of x]
  obtain v where v: "users (step x st) k = Some v" "u_createdAt v = u_createdAt u"
    by blast
  from Cons.IH [OF v(1)] v(2) show ?case by simp
qed

text \<open>
  Claim C2, as amended. \<open>upsertUser\<close> on an unseen identifier returns and stores the input's
  fields with \<open>createdAt\<close> and \<open>updatedAt\<close> both the current time; on a seen identifier it
  returns and stores the input's fields with the \<open>createdAt\<close> of the record already there and
  \<open>updatedAt\<close> the current time; only the entry of that identifier in the user map is written.
  After a first insertion at time \<open>now\<close>, any later upsert of the same identifier, whatever
  operations ran in between, returns \<open>createdAt = now\<close>. Upserting the same input a second
  time changes nothing but \<open>updatedAt\<close>, in the returned user and in the store; the new
  \<open>updatedAt\<close> is the clock reading of the second call, so it is not earlier than the first
  one when the clock did not step back between the two calls, and later when the clock moved
  on.
\<close>

theorem upsertUser_contract:
  "(users st (uu_id ud) = None \<longrightarrow>
      fst (upsertUser ud now st) =
        \<lparr>u_id = uu_id ud, u_profile = uu_profile ud, u_createdAt = now, u_updatedAt = now\<rparr>) \<and>
   (\<forall>old. users st (uu_id ud) = Some old \<longrightarrow>
      fst (upsertUser ud now st) =
        \<lparr>u_id = uu_id ud, u_profile = uu_profile ud, u_createdAt = u_createdAt old,
         u_updatedAt = now\<rparr>) \<and>
   snd (upsertUser ud now st) = st\<lparr>users := (users st)(uu_id ud \<mapsto> fst (upsertUser ud now st))\<rparr> \<and>
   (users st (uu_id ud) = None \<and> uu_id ud' = uu_id ud \<longrightarrow>
      fst (upsertUser ud' now' (run ops (snd (upsertUser ud now st)))) =
        \<lparr>u_id = uu_id ud, u_profile = uu_profile ud', u_createdAt = now, u_updatedAt = now'\<rparr>) \<and>
   fst (upsertUser ud now' (snd (upsertUser ud now st))) =
     (fst (upsertUser ud now st))\<lparr>u_updatedAt := now'\<rparr> \<and>
   snd (upsertUser ud now' (snd (upsertUser ud now st))) =
     st\<lparr>users := (users st)(uu_id ud \<mapsto> (fst (upsertUser ud now st))\<lparr>u_updatedAt := now'\<rparr>)\<rparr> \<and>
   (now \<le> now' \<longrightarrow>
      u_updatedAt (fst (upsertUser ud now st)) \<le>
      u_updatedAt (fst (upsertUser ud now' (snd (upsertUser ud now st))))) \<and>
   (now < now' \<longrightarrow>
      u_updatedAt (fst (upsertUser ud now st)) <
      u_updatedAt (fst (upsertUser ud now' (snd (upsertUser ud now st)))))"
proof (intro conjI impI allI)
  assume a: "users st (uu_id ud) = None \<and> uu_id ud' = uu_id ud"
  let ?st1 = "snd (upsertUser ud now st)"
  have "users ?st1 (uu_id ud) = Some (fst (upsertUser ud now st))"
    by (simp add: upsertUser_def Let_def)
  from run_keeps_createdAt [OF this, of ops]
  obtain v where v: "users (run ops ?st1) (uu_id ud) = Some v"
    "u_createdAt v = u_createdAt (fst (upsertUser ud now st))"
    by blast
  from a have "u_createdAt (fst (upsertUser ud now st)) = now"
    by (simp add: upsertUser_def Let_def)
  with a v show "fst (upsertUser ud' now' (run ops ?st1)) =
        \<lparr>u_id = uu_id ud, u_profile = uu_profile ud', u_createdAt = now, u_updatedAt = now'\<rparr>"
    by (simp add: upsertUser_def Let_def)
qed (simp_all add: upsertUser_def Let_def)

theorem upsertUser_contract_witness:
  "users example_store ''u2'' = None \<and>
   fst (upsertUser \<lparr>uu_id = ''u2'', uu_profile = ''Bob''\<rparr> 1700000000150 example_store) =
     \<lparr>u_id = ''u2'', u_profile = ''Bob'', u_createdAt = 1700000000150, u_updatedAt = 1700000000150\<rparr> \<and>
   fst (upsertUser \<lparr>uu_id = ''u2'', uu_profile = ''Bobby''\<rparr> 1700000000170
          (run [DeleteChatSessionOp ''session_1700000000120_b2r7t5w8z'']
             (snd (upsertUser \<lparr>uu_id = ''u2'', uu_profile = ''Bob''\<rparr>
                   1700000000150 example_store)))) =
     \<lparr>u_id = ''u2'', u_profile = ''Bobby'', u_createdAt = 1700000000150, u_updatedAt = 1700000000170\<rparr> \<and>
   users example_store ''u1'' =
     Some \<lparr>u_id = ''u1'', u_profile = ''Ann'', u_createdAt = 1700000000100, u_updatedAt = 1700000000100\<rparr> \<and>
   fst (upsertUser \<lparr>uu_id = ''u1'', uu_profile = ''Anna''\<rparr> 1700000000150 example_store) =
     \<lparr>u_id = ''u1'', u_profile = ''Anna'', u_createdAt = 1700000000100, u_updatedAt = 1700000000150\<rparr> \<and>
   (1700000000150 :: int) < 1700000000170 \<and>
   u_updatedAt (fst (upsertUser \<lparr>uu_id = ''u2'', uu_profile = ''Bob''\<rparr> 1700000000150 example_store)) <
   u_updatedAt (fst (upsertUser \<lparr>uu_id = ''u2'', uu_profile = ''Bob''\<rparr> 1700000000170
     (snd (upsertUser \<lparr>uu_id = ''u2'', uu_profile = ''Bob''\<rparr> 1700000000150 example_store))))"
proof -
  have unseen: "users example_store ''u2'' = None"
    by code_simp
  have seen: "users example_store ''u1'' =
     Some \<lparr>u_id = ''u1'', u_profile = ''Ann'', u_createdAt = 1700000000100, u_updatedAt = 1700000000100\<rparr>"
    by code_simp
  note first = upsertUser_contract [of example_store "\<lparr>uu_id = ''u2'', uu_profile = ''Bob''\<rparr>"
        1700000000150
      "\<lparr>uu_id = ''u2'', uu_profile = ''Bobby''\<rparr>"
            1700000000170 "[DeleteChatSessionOp ''session_1700000000120_b2r7t5w8z'']"]
  from unseen first [THEN conjunct1]
  have "fst (upsertUser \<lparr>uu_id = ''u2'', uu_profile = ''Bob''\<rparr>
        1700000000150 example_store) =
     \<lparr>u_id = ''u2'', u_profile = ''Bob'', u_createdAt = 1700000000150, u_updatedAt = 1700000000150\<rparr>"
    by simp
  moreover from unseen first [THEN conjunct2, THEN conjunct2, THEN conjunct2, THEN conjunct1]
  have "fst (upsertUser \<lparr>uu_id = ''u2'', uu_profile = ''Bobby''\<rparr> 1700000000170
          (run [DeleteChatSessionOp ''session_1700000000120_b2r7t5w8z'']
             (snd (upsertUser \<lparr>uu_id = ''u2'', uu_profile = ''Bob''\<rparr>
                   1700000000150 example_store)))) =
     \<lparr>u_id = ''u2'', u_profile = ''Bobby'', u_createdAt = 1700000000150, u_updatedAt = 1700000000170\<rparr>"
    by simp
  moreover from seen
    upsertUser_contract [of example_store "\<lparr>uu_id = ''u1'', uu_profile = ''Anna''\<rparr>"
          1700000000150,
      THEN conjunct2, THEN conjunct1]
  have "fst (upsertUser \<lparr>uu_id = ''u1'', uu_profile = ''Anna''\<rparr>
        1700000000150 example_store) =
     \<lparr>u_id = ''u1'', u_profile = ''Anna'', u_createdAt = 1700000000100, u_updatedAt = 1700000000150\<rparr>"
    by simp
  moreover have "u_updatedAt (fst (upsertUser \<lparr>uu_id = ''u2'', uu_profile = ''Bob''\<rparr>
        1700000000150 example_store)) <
     u_updatedAt (fst (upsertUser \<lparr>uu_id = ''u2'', uu_profile = ''Bob''\<rparr> 1700000000170
       (snd (upsertUser \<lparr>uu_id = ''u2'', uu_profile = ''Bob''\<rparr> 1700000000150 example_store))))"
    by (rule first [THEN conjunct2, THEN conjunct2, THEN conjunct2, THEN conjunct2, THEN conjunct2,
          THEN conjunct2, THEN conjunct2, THEN mp]) simp
  ultimately show ?thesis using unseen seen by simp
qed

text \<open>
  When the clock is set back between two upserts of the same input, the second call returns
  an earlier \<open>updatedAt\<close> than the first.
\<close>

theorem upsertUser_updatedAt_steps_back:
  "u_updatedAt
     (fst (upsertUser \<lparr>uu_id = ''u1'', uu_profile = ''Ann''\<rparr> 1700000000150
        (snd (upsertUser \<lparr>uu_id = ''u1'', uu_profile = ''Ann''\<rparr> 1700000000200
                (new_MemoryStorage :: (string, string, string) MemoryStorage))))) <
   u_updatedAt
     (fst (upsertUser \<lparr>uu_id = ''u1'', uu_profile = ''Ann''\<rparr> 1700000000200
        (new_MemoryStorage :: (string, string, string) MemoryStorage)))"
  by (simp add: upsertUser_def Let_def)

section \<open>Creating messages\<close>

text \<open>
  Claim C3. When the session named by the new message exists, \<open>createMessage\<close> returns a
  message whose \<open>timestamp\<close> is the current time and leaves that session in the store with its
  \<open>updatedAt\<close> set to the same time and its other fields as they were. After two messages
  are created one after the other in an existing session \<open>s1\<close>, the \<open>updatedAt\<close> of
  \<open>getChatSession s1\<close> is the \<open>timestamp\<close> of the second message.
\<close>

theorem createMessage_refreshes_session:
  "(chatSessions st (im_sessionId im) = Some S \<longrightarrow>
      m_timestamp (fst (createMessage im t rnd now st)) = now \<and>
      getChatSession (im_sessionId im) (snd (createMessage im t rnd now st)) =
        Some (S\<lparr>s_updatedAt := now\<rparr>)) \<and>
   (chatSessions st s1 = Some S \<and> im_sessionId im1 = s1 \<and> im_sessionId im2 = s1 \<longrightarrow>
      map_option s_updatedAt
        (getChatSession s1
           (snd (createMessage im2 t2 rnd2 now2 (snd (createMessage im1 t1 rnd1 now1 st))))) =
      Some (m_timestamp (fst (createMessage im2 t2 rnd2 now2 (snd (createMessage im1 t1 rnd1 now1 st))))))"
  by (auto simp: createMessage_def getChatSession_def Let_def)

theorem createMessage_refreshes_session_witness:
  "chatSessions example_store ''session_1700000000120_b2r7t5w8z'' =
     Some \<lparr>s_id = ''session_1700000000120_b2r7t5w8z'', s_userId = ''u1'', s_meta = ''second'',
           s_createdAt = 1700000000120, s_updatedAt = 1700000000120\<rparr> \<and>
   m_timestamp (fst (createMessage \<lparr>im_sessionId = ''session_1700000000120_b2r7t5w8z'', im_content = ''m1''\<rparr>
                       1700000000150 ''e5g2f7l9o'' 1700000000151 example_store)) = 1700000000151 \<and>
   getChatSession ''session_1700000000120_b2r7t5w8z''
     (snd (createMessage \<lparr>im_sessionId = ''session_1700000000120_b2r7t5w8z'', im_content = ''m1''\<rparr>
             1700000000150 ''e5g2f7l9o'' 1700000000151 example_store)) =
     Some \<lparr>s_id = ''session_1700000000120_b2r7t5w8z'', s_userId = ''u1'', s_meta = ''second'',
           s_createdAt = 1700000000120, s_updatedAt = 1700000000151\<rparr> \<and>
   map_option s_updatedAt
     (getChatSession ''session_1700000000120_b2r7t5w8z''
        (snd (createMessage \<lparr>im_sessionId = ''session_1700000000120_b2r7t5w8z'', im_content = ''m2''\<rparr>
              1700000000160 ''f6i1m0b4d'' 1700000000161
           (snd (createMessage \<lparr>im_sessionId = ''session_1700000000120_b2r7t5w8z'', im_content = ''m1''\<rparr>
                   1700000000150 ''e5g2f7l9o'' 1700000000151 example_store))))) =
   Some (m_timestamp
     (fst (createMessage \<lparr>im_sessionId = ''session_1700000000120_b2r7t5w8z'', im_content = ''m2''\<rparr>
           1700000000160 ''f6i1m0b4d'' 1700000000161
        (snd (createMessage \<lparr>im_sessionId = ''session_1700000000120_b2r7t5w8z'', im_content = ''m1''\<rparr>
                1700000000150 ''e5g2f7l9o'' 1700000000151 example_store)))))"
proof -
  have present: "chatSessions example_store ''session_1700000000120_b2r7t5w8z'' =
     Some \<lparr>s_id = ''session_1700000000120_b2r7t5w8z'', s_userId = ''u1'', s_meta = ''second'',
           s_createdAt = 1700000000120, s_updatedAt = 1700000000120\<rparr>"
    by code_simp
  from present
    createMessage_refreshes_session [of example_store
      "\<lparr>im_sessionId = ''session_1700000000120_b2r7t5w8z'', im_content = ''m1''\<rparr>"
      "\<lparr>s_id = ''session_1700000000120_b2r7t5w8z'', s_userId = ''u1'', s_meta = ''second'',
           s_createdAt = 1700000000120, s_updatedAt = 1700000000120\<rparr>"
                 1700000000150 "''e5g2f7l9o''" 1700000000151
      "''session_1700000000120_b2r7t5w8z''" "\<lparr>im_sessionId = ''session_1700000000120_b2r7t5w8z'', im_content = ''m1''\<rparr>"
      "\<lparr>im_sessionId = ''session_1700000000120_b2r7t5w8z'', im_content = ''m2''\<rparr>"
            1700000000160 "''f6i1m0b4d''" 1700000000161 1700000000150 "''e5g2f7l9o''" 1700000000151]
  show ?thesis by simp
qed

text \<open>
  Claim C9. When no session has the identifier named by the new message, \<open>createMessage\<close>
  still stores the message under its generated identifier, the message is an element of
  what \<open>getMessagesBySessionId\<close> then returns for that session identifier, and the session
  map is the one before the call.
\<close>

theorem createMessage_without_session:
  assumes "chatSessions st (im_sessionId im) = None"
  shows "messages (snd (createMessage im t rnd now st)) (m_id (fst (createMessage im t rnd now st)))
           = Some (fst (createMessage im t rnd now st)) \<and>
         fst (createMessage im t rnd now st)
           \<in> set (getMessagesBySessionId (im_sessionId im) (snd (createMessage im t rnd now st))) \<and>
         chatSessions (snd (createMessage im t rnd now st)) = chatSessions st"
  using assms
  by (auto simp: createMessage_def getMessagesBySessionId_def Let_def map_filter_def)

theorem createMessage_without_session_witness:
  "chatSessions example_store ''nowhere'' = None \<and>
   fst (createMessage \<lparr>im_sessionId = ''nowhere'', im_content = ''lost''\<rparr>
         1700000000150 ''e5g2f7l9o'' 1700000000150 example_store)
     \<in> set (getMessagesBySessionId ''nowhere''
         (snd (createMessage \<lparr>im_sessionId = ''nowhere'', im_content = ''lost''\<rparr>
               1700000000150 ''e5g2f7l9o'' 1700000000150
            example_store))) \<and>
   chatSessions
     (snd (createMessage \<lparr>im_sessionId = ''nowhere'', im_content = ''lost''\<rparr>
           1700000000150 ''e5g2f7l9o'' 1700000000150
        example_store)) = chatSessions example_store"
proof -
  have absent: "chatSessions example_store ''nowhere'' = None"
    by code_simp
  from absent
    createMessage_without_session [of example_store
      "\<lparr>im_sessionId = ''nowhere'', im_content = ''lost''\<rparr>"
            1700000000150 "''e5g2f7l9o''" 1700000000150]
  show ?thesis by simp
qed

section \<open>Deleting a message\<close>

text \<open>
  Claim C10. Deleting a message that is in the message map leaves the user map, the session
  map and the sessions-by-user index as they were, removes exactly that key from the message
  map, leaves the messages-by-session entry of every other session as it was, and removes
  one occurrence of the identifier from the entry of the message's own session.
\<close>

theorem deleteMessage_frame:
  assumes "messages st i = Some m"
  shows "users (deleteMessage i st) = users st \<and>
         chatSessions (deleteMessage i st) = chatSessions st \<and>
         sessionsByUser (deleteMessage i st) = sessionsByUser st \<and>
         messages (deleteMessage i st) = (messages st)(i := None) \<and>
         (\<forall>sid. sid \<noteq> m_sessionId m \<longrightarrow>
            messagesBySession (deleteMessage i st) sid = messagesBySession st sid) \<and>
         messagesBySession (deleteMessage i st) (m_sessionId m) =
           map_option (remove1 i) (messagesBySession st (m_sessionId m))"
  using assms
  by (auto simp: deleteMessage_def Let_def get_or_empty_def remove1_idem split: option.splits)

theorem deleteMessage_frame_witness:
  "messages example_store ''msg_1700000000130_c3p0v6n1y'' =
     Some \<lparr>m_id = ''msg_1700000000130_c3p0v6n1y'', m_sessionId = ''session_1700000000110_a1k9x2m4q'', m_content = ''hello'',
           m_timestamp = 1700000000130\<rparr> \<and>
   messagesBySession example_store ''session_1700000000110_a1k9x2m4q'' = Some [''msg_1700000000130_c3p0v6n1y'', ''msg_1700000000140_d4h8j3s5u''] \<and>
   chatSessions (deleteMessage ''msg_1700000000130_c3p0v6n1y'' example_store) = chatSessions example_store \<and>
   messages (deleteMessage ''msg_1700000000130_c3p0v6n1y'' example_store) =
     (messages example_store)(''msg_1700000000130_c3p0v6n1y'' := None) \<and>
   messagesBySession (deleteMessage ''msg_1700000000130_c3p0v6n1y'' example_store) ''session_1700000000110_a1k9x2m4q'' =
     Some [''msg_1700000000140_d4h8j3s5u'']"
proof -
  have present: "messages example_store ''msg_1700000000130_c3p0v6n1y'' =
     Some \<lparr>m_id = ''msg_1700000000130_c3p0v6n1y'', m_sessionId = ''session_1700000000110_a1k9x2m4q'', m_content = ''hello'',
           m_timestamp = 1700000000130\<rparr>"
    by code_simp
  have entry: "messagesBySession example_store ''session_1700000000110_a1k9x2m4q'' =
     Some [''msg_1700000000130_c3p0v6n1y'', ''msg_1700000000140_d4h8j3s5u'']"
    by code_simp
  from present entry deleteMessage_frame [OF present]
  show ?thesis by simp
qed

section \<open>The identifier scheme\<close>

text \<open>
  The decimal rendering of a clock reading is injective and contains no underscore, so the
  first underscore after the prefix separates the clock reading from the random suffix.
\<close>

lemma digit_char_in: "0 \<le> d \<Longrightarrow> d < 10 \<Longrightarrow> digit_char d \<in> set ''0123456789''"
  unfolding digit_char_def by (rule nth_mem) simp

lemma digit_char_inj:
  assumes "0 \<le> a" "a < 10" "0 \<le> b" "b < 10" "digit_char a = digit_char b"
  shows "a = b"
proof -
  have "distinct ''0123456789''" by simp
  moreover have "nat a < length ''0123456789''" "nat b < length ''0123456789''"
    using assms by simp_all
  ultimately have "nat a = nat b"
    using assms(5) unfolding digit_char_def by (simp only: nth_eq_iff_index_eq)
  with assms show ?thesis by simp
qed

lemma digits_set: "0 \<le> n \<Longrightarrow> set (digits n) \<subseteq> set ''0123456789''"
proof (induction n rule: digits.induct)
  case (1 n)
  show ?case
  proof (cases "n < 10")
    case True
    with digit_char_in [of n] "1.prems" show ?thesis
      by (subst digits.simps) simp
  next
    case False
    have "0 \<le> n mod 10" "n mod 10 < 10" by simp_all
    from digit_char_in [OF this] "1.IH" [OF False] "1.prems" False show ?thesis
      by (subst digits.simps) simp
  qed
qed

lemma digits_nonempty: "digits n \<noteq> []"
  by (subst digits.simps) simp

lemma digits_inj: "0 \<le> a \<Longrightarrow> 0 \<le> b \<Longrightarrow> digits a = digits b \<Longrightarrow> a = b"
proof (induction a arbitrary: b rule: digits.induct)
  case (1 a)
  note eq = \<open>digits a = digits b\<close>
  show ?case
  proof (cases "a < 10")
    case small_a: True
    show ?thesis
    proof (cases "b < 10")
      case True
      with small_a eq have "digit_char a = digit_char b"
        by (simp add: digits.simps [of a] digits.simps [of b])
      with small_a True "1.prems"(1,2) show ?thesis
        by (intro digit_char_inj)
    next
      case False
      with small_a eq digits_nonempty [of "b div 10"] show ?thesis
        by (simp add: digits.simps [of a] digits.simps [of b])
    qed
  next
    case big_a: False
    show ?thesis
    proof (cases "b < 10")
      case True
      with big_a eq digits_nonempty [of "a div 10"] show ?thesis
        by (simp add: digits.simps [of a] digits.simps [of b])
    next
      case False
      with big_a eq have front: "digits (a div 10) = digits (b div 10)"
        and last: "digit_char (a mod 10) = digit_char (b mod 10)"
        by (simp_all add: digits.simps [of a] digits.simps [of b])
      from "1.prems"(1,2) have "0 \<le> a div 10" "0 \<le> b div 10" by simp_all
      from "1.IH" [OF big_a this front] have "a div 10 = b div 10" .
      moreover from last have "a mod 10 = b mod 10"
        by (intro digit_char_inj) simp_all
      ultimately show ?thesis
        by (metis div_mult_mod_eq)
    qed
  qed
qed

lemma number_text_sep: "CHR ''_'' \<notin> set (number_text i)"
proof (cases "i < 0")
  case True
  with digits_set [of "- i"] show ?thesis
    by (auto simp: number_text_def)
next
  case False
  with digits_set [of i] show ?thesis
    by (auto simp: number_text_def)
qed

lemma number_text_inj: "number_text a = number_text b \<Longrightarrow> a = b"
proof -
  assume eq: "number_text a = number_text b"
  have no_minus: "hd (digits n) \<noteq> CHR ''-''" if "0 \<le> n" for n
  proof -
    have "hd (digits n) \<in> set (digits n)" using digits_nonempty by simp
    with digits_set [OF that] show ?thesis by auto
  qed
  consider "a < 0" "b < 0" | "0 \<le> a" "0 \<le> b" | "a < 0" "0 \<le> b" | "0 \<le> a" "b < 0"
    by linarith
  then show ?thesis
  proof cases
    case 1
    with eq have "digits (- a) = digits (- b)" by (simp add: number_text_def)
    with 1 digits_inj [of "- a" "- b"] show ?thesis by simp
  next
    case 2
    with eq have "digits a = digits b" by (simp add: number_text_def)
    with 2 digits_inj [of a b] show ?thesis by simp
  next
    case 3
    with eq have "CHR ''-'' # digits (- a) = digits b" by (simp add: number_text_def)
    then have "hd (digits b) = CHR ''-''" by (metis list.sel(1))
    with no_minus [of b] 3 show ?thesis by blast
  next
    case 4
    with eq have "digits a = CHR ''-'' # digits (- b)" by (simp add: number_text_def)
    then have "hd (digits a) = CHR ''-''" by (metis list.sel(1))
    with no_minus [of a] 4 show ?thesis by blast
  qed
qed

lemma split_at_first:
  "c \<notin> set xs \<Longrightarrow> c \<notin> set xs' \<Longrightarrow> xs @ c # ys = xs' @ c # ys' \<Longrightarrow> xs = xs' \<and> ys = ys'"
proof (induction xs arbitrary: xs')
  case Nil
  then show ?case by (cases xs') auto
next
  case (Cons x xs)
  then show ?case by (cases xs') auto
qed

lemma ident_body_inj:
  "number_text t @ CHR ''_'' # rnd = number_text t' @ CHR ''_'' # rnd' \<longleftrightarrow> t = t' \<and> rnd = rnd'"
proof
  assume "number_text t @ CHR ''_'' # rnd = number_text t' @ CHR ''_'' # rnd'"
  from split_at_first [OF number_text_sep number_text_sep this]
  have "number_text t = number_text t'" and "rnd = rnd'"
    by simp_all
  with number_text_inj show "t = t' \<and> rnd = rnd'" by blast
qed simp

lemma session_ident_inj:
  "session_ident t rnd = session_ident t' rnd' \<longleftrightarrow> t = t' \<and> rnd = rnd'"
  using ident_body_inj [of t rnd t' rnd'] by (simp add: session_ident_def)

lemma msg_ident_inj:
  "msg_ident t rnd = msg_ident t' rnd' \<longleftrightarrow> t = t' \<and> rnd = rnd'"
  using ident_body_inj [of t rnd t' rnd'] by (simp add: msg_ident_def)

text \<open>
  Claim C6, as amended. The identifiers that two calls of \<open>createChatSession\<close> generate are
  equal exactly when the two calls read the same \<open>Date.now()\<close> value and drew the same random
  suffix, whatever the stores and the inputs; the same holds for two calls of
  \<open>createMessage\<close>.
\<close>

theorem generated_ids_equal_iff:
  "(s_id (fst (createChatSession ins t rnd now st)) =
      s_id (fst (createChatSession ins' t' rnd' now' st')) \<longleftrightarrow> t = t' \<and> rnd = rnd') \<and>
   (m_id (fst (createMessage im t rnd now st)) =
      m_id (fst (createMessage im' t' rnd' now' st')) \<longleftrightarrow> t = t' \<and> rnd = rnd')"
  by (simp add: createChatSession_def createMessage_def Let_def session_ident_inj msg_ident_inj)

theorem generated_ids_equal_iff_witness:
  "s_id (fst (createChatSession \<lparr>is_userId = ''u1'', is_meta = ''third''\<rparr>
        1700000000150 ''e5g2f7l9o'' 1700000000150 example_store))
     \<noteq> s_id (fst (createChatSession \<lparr>is_userId = ''u1'', is_meta = ''fourth''\<rparr>
           1700000000150 ''f6i1m0b4d'' 1700000000150
              (snd (createChatSession \<lparr>is_userId = ''u1'', is_meta = ''third''\<rparr>
                    1700000000150 ''e5g2f7l9o'' 1700000000150
                      example_store)))) \<and>
   m_id (fst (createMessage \<lparr>im_sessionId = ''session_1700000000120_b2r7t5w8z'', im_content = ''x''\<rparr>
         1700000000150 ''e5g2f7l9o'' 1700000000150
                example_store))
     \<noteq> m_id (fst (createMessage \<lparr>im_sessionId = ''session_1700000000120_b2r7t5w8z'', im_content = ''y''\<rparr>
           1700000000151 ''e5g2f7l9o'' 1700000000151
              (snd (createMessage \<lparr>im_sessionId = ''session_1700000000120_b2r7t5w8z'', im_content = ''x''\<rparr>
                    1700000000150 ''e5g2f7l9o'' 1700000000150
                      example_store))))"
  using
    generated_ids_equal_iff [where t = 1700000000150 and rnd = "''e5g2f7l9o''" and t' = 1700000000150 and rnd' = "''f6i1m0b4d''"
      and now = 1700000000150 and now' = 1700000000150 and st = example_store
      and ins = "\<lparr>is_userId = ''u1'', is_meta = ''third''\<rparr>"
      and ins' = "\<lparr>is_userId = ''u1'', is_meta = ''fourth''\<rparr>"
      and st' = "snd (createChatSession \<lparr>is_userId = ''u1'', is_meta = ''third''\<rparr>
            1700000000150 ''e5g2f7l9o'' 1700000000150
                       example_store)", THEN conjunct1]
    generated_ids_equal_iff [where t = 1700000000150 and rnd = "''e5g2f7l9o''" and t' = 1700000000151 and rnd' = "''e5g2f7l9o''"
      and now = 1700000000150 and now' = 1700000000151 and st = example_store
      and im = "\<lparr>im_sessionId = ''session_1700000000120_b2r7t5w8z'', im_content = ''x''\<rparr>"
      and im' = "\<lparr>im_sessionId = ''session_1700000000120_b2r7t5w8z'', im_content = ''y''\<rparr>"
      and st' = "snd (createMessage \<lparr>im_sessionId = ''session_1700000000120_b2r7t5w8z'', im_content = ''x''\<rparr>
                       1700000000150 ''e5g2f7l9o'' 1700000000150 example_store)", THEN conjunct2]
  by simp

text \<open>
  Two sessions created one after the other while \<open>Date.now()\<close> still returns 1700000000110 and the
  random suffix comes out as \<open>a1\<close> both times receive the same identifier, and so do two
  messages.
\<close>

theorem generated_ids_collide:
  "s_id (fst (createChatSession \<lparr>is_userId = ''u1'', is_meta = ''first''\<rparr>
        1700000000110 ''a1k9x2m4q'' 1700000000110
                (new_MemoryStorage :: (string, string, string) MemoryStorage))) =
   s_id (fst (createChatSession \<lparr>is_userId = ''u2'', is_meta = ''other''\<rparr>
         1700000000110 ''a1k9x2m4q'' 1700000000110
                (snd (createChatSession \<lparr>is_userId = ''u1'', is_meta = ''first''\<rparr>
                      1700000000110 ''a1k9x2m4q'' 1700000000110
                        (new_MemoryStorage :: (string, string, string) MemoryStorage))))) \<and>
   m_id (fst (createMessage \<lparr>im_sessionId = ''s1'', im_content = ''one''\<rparr>
         1700000000110 ''a1k9x2m4q'' 1700000000110
                (new_MemoryStorage :: (string, string, string) MemoryStorage))) =
   m_id (fst (createMessage \<lparr>im_sessionId = ''s1'', im_content = ''two''\<rparr>
         1700000000110 ''a1k9x2m4q'' 1700000000110
                (snd (createMessage \<lparr>im_sessionId = ''s1'', im_content = ''one''\<rparr>
                      1700000000110 ''a1k9x2m4q'' 1700000000110
                        (new_MemoryStorage :: (string, string, string) MemoryStorage)))))"
  by (simp add: createChatSession_def createMessage_def Let_def)

section \<open>Deleting a session\<close>

lemma deleteChatSession_fields:
  assumes "chatSessions st i = Some S"
  shows "chatSessions (deleteChatSession i st) = (chatSessions st)(i := None)"
    and "messagesBySession (deleteChatSession i st) = (messagesBySession st)(i := None)"
    and "messages (deleteChatSession i st) k =
           (if k \<in> set (get_or_empty (messagesBySession st) i) then None else messages st k)"
  using assms by (simp_all add: deleteChatSession_def Let_def fold_delete_apply)

text \<open>
  Claim C1, as amended. After \<open>deleteChatSession i\<close> the session map has no entry for \<open>i\<close>.
  When the session was there before the call, \<open>getMessagesBySessionId i\<close> returns the empty
  list afterwards and every message listed in the index entry of \<open>i\<close> is gone from the
  message map; in a store reached from the empty one by interface operations no message
  whose \<open>sessionId\<close> is \<open>i\<close> is left in the message map at all. When the session was
  not there, \<open>getMessagesBySessionId i\<close> returns after the call what it returned before.
\<close>

theorem deleteChatSession_cascades:
  "getChatSession i (deleteChatSession i st) = None \<and>
   (chatSessions st i \<noteq> None \<longrightarrow>
      getMessagesBySessionId i (deleteChatSession i st) = [] \<and>
      (\<forall>k \<in> set (get_or_empty (messagesBySession st) i).
         messages (deleteChatSession i st) k = None)) \<and>
   (chatSessions (run ops new_MemoryStorage) i \<noteq> None \<longrightarrow>
      (\<forall>k m. messages (deleteChatSession i (run ops new_MemoryStorage)) k = Some m \<longrightarrow>
         m_sessionId m \<noteq> i)) \<and>
   (chatSessions st i = None \<longrightarrow>
      getMessagesBySessionId i (deleteChatSession i st) = getMessagesBySessionId i st)"
proof (intro conjI impI)
  show "getChatSession i (deleteChatSession i st) = None"
    by (cases "chatSessions st i")
      (simp_all add: getChatSession_def deleteChatSession_fields(1), simp add: deleteChatSession_def)
next
  assume "chatSessions st i \<noteq> None"
  then obtain S where S: "chatSessions st i = Some S" by blast
  show "getMessagesBySessionId i (deleteChatSession i st) = []"
    by (simp add: getMessagesBySessionId_def deleteChatSession_fields(2) [OF S] map_filter_def)
  show "\<forall>k \<in> set (get_or_empty (messagesBySession st) i).
         messages (deleteChatSession i st) k = None"
    by (simp add: deleteChatSession_fields(3) [OF S])
next
  let ?st = "run ops new_MemoryStorage"
  assume "chatSessions ?st i \<noteq> None"
  then obtain S where S: "chatSessions ?st i = Some S" by blast
  have consistent: "index_consistent ?st"
    by (rule run_index_consistent [OF new_index_consistent])
  show "\<forall>k m. messages (deleteChatSession i ?st) k = Some m \<longrightarrow> m_sessionId m \<noteq> i"
  proof (intro allI impI)
    fix k m
    assume left: "messages (deleteChatSession i ?st) k = Some m"
    then have "k \<notin> set (get_or_empty (messagesBySession ?st) i)" and "messages ?st k = Some m"
      by (simp_all add: deleteChatSession_fields(3) [OF S] split: if_splits)
    with consistent show "m_sessionId m \<noteq> i"
      by (auto simp: index_consistent_def)
  qed
next
  assume "chatSessions st i = None"
  then show "getMessagesBySessionId i (deleteChatSession i st) = getMessagesBySessionId i st"
    by (simp add: deleteChatSession_def)
qed

theorem deleteChatSession_cascades_witness:
  "chatSessions example_store ''session_1700000000110_a1k9x2m4q'' \<noteq> None \<and>
   map m_content (getMessagesBySessionId ''session_1700000000110_a1k9x2m4q'' example_store) = [''hello'', ''again''] \<and>
   getChatSession ''session_1700000000110_a1k9x2m4q'' (deleteChatSession ''session_1700000000110_a1k9x2m4q'' example_store) = None \<and>
   getMessagesBySessionId ''session_1700000000110_a1k9x2m4q'' (deleteChatSession ''session_1700000000110_a1k9x2m4q'' example_store) = [] \<and>
   messages (deleteChatSession ''session_1700000000110_a1k9x2m4q'' example_store) ''msg_1700000000130_c3p0v6n1y'' = None"
proof -
  have present: "chatSessions example_store ''session_1700000000110_a1k9x2m4q'' \<noteq> None"
    by code_simp
  have before: "map m_content (getMessagesBySessionId ''session_1700000000110_a1k9x2m4q'' example_store) =
      [''hello'', ''again'']"
    by code_simp
  have listed: "''msg_1700000000130_c3p0v6n1y'' \<in> set (get_or_empty (messagesBySession example_store) ''session_1700000000110_a1k9x2m4q'')"
    by code_simp
  note inst = deleteChatSession_cascades [of "''session_1700000000110_a1k9x2m4q''" example_store]
  from inst have "getChatSession ''session_1700000000110_a1k9x2m4q'' (deleteChatSession ''session_1700000000110_a1k9x2m4q'' example_store) = None"
    by blast
  moreover from inst present
  have "getMessagesBySessionId ''session_1700000000110_a1k9x2m4q'' (deleteChatSession ''session_1700000000110_a1k9x2m4q'' example_store) = []"
    by blast
  moreover from inst present listed
  have "messages (deleteChatSession ''session_1700000000110_a1k9x2m4q'' example_store) ''msg_1700000000130_c3p0v6n1y'' = None"
    by blast
  ultimately show ?thesis using present before by simp
qed

text \<open>
  A message created under a session identifier that names no session stays reachable:
  \<open>deleteChatSession\<close> finds no session, does nothing, and \<open>getMessagesBySessionId\<close> still
  returns the message.
\<close>

theorem deleteChatSession_leaves_orphan:
  "getMessagesBySessionId ''ghost''
     (deleteChatSession ''ghost''
        (snd (createMessage \<lparr>im_sessionId = ''ghost'', im_content = ''boo''\<rparr>
              1700000000110 ''a1k9x2m4q'' 1700000000110
                (new_MemoryStorage :: (string, string, string) MemoryStorage)))) =
   [\<lparr>m_id = ''msg_1700000000110_a1k9x2m4q'', m_sessionId = ''ghost'', m_content = ''boo'', m_timestamp = 1700000000110\<rparr>]"
  by code_simp

section \<open>Stores built without identifier collisions\<close>

lemma step_sessions_exact:
  "sessions_exact st \<Longrightarrow> fresh_session_id x st \<Longrightarrow> sessions_exact (step x st)"
  apply (cases x)
      apply (auto simp: sessions_exact_def upsertUser_def createChatSession_def createMessage_def
      deleteMessage_def deleteChatSession_def Let_def split: option.splits)
      apply (metis option.distinct(1) option.inject)+
  done

lemma step_messages_exact:
  "messages_exact st \<Longrightarrow> fresh_message_id x st \<Longrightarrow> messages_exact (step x st)"
  apply (cases x)
      apply (auto simp: messages_exact_def upsertUser_def createChatSession_def createMessage_def
      deleteMessage_def deleteChatSession_def Let_def fold_delete_apply split: option.splits)
      apply (metis option.distinct(1) option.inject)+
  done

lemma run_sessions_exact:
  "sessions_exact st \<Longrightarrow> no_session_collision ops st \<Longrightarrow> sessions_exact (run ops st)"
  by (induction ops arbitrary: st) (simp_all add: step_sessions_exact)

lemma run_messages_exact:
  "messages_exact st \<Longrightarrow> no_message_collision ops st \<Longrightarrow> messages_exact (run ops st)"
  by (induction ops arbitrary: st) (simp_all add: step_messages_exact)

lemma reachable_sessions_exact:
  "no_session_collision ops new_MemoryStorage \<Longrightarrow> sessions_exact (run ops new_MemoryStorage)"
  by (rule run_sessions_exact) (simp add: sessions_exact_def new_MemoryStorage_def)

lemma reachable_messages_exact:
  "no_message_collision ops new_MemoryStorage \<Longrightarrow> messages_exact (run ops new_MemoryStorage)"
  by (rule run_messages_exact) (simp add: messages_exact_def new_MemoryStorage_def)

section \<open>Listing with a stable sort\<close>

lemma set_map_filter: "set (List.map_filter f xs) = {y. \<exists>x \<in> set xs. f x = Some y}"
  by (induction xs) (auto split: option.splits)

lemma distinct_map_filter:
  assumes "distinct xs" and "\<And>x y v. x \<in> set xs \<Longrightarrow> y \<in> set xs \<Longrightarrow> f x = Some v \<Longrightarrow> f y = Some v \<Longrightarrow> x = y"
  shows "distinct (List.map_filter f xs)"
  using assms
proof (induction xs)
  case Nil
  then show ?case by simp
next
  case (Cons a xs)
  from Cons.prems have IH: "distinct (List.map_filter f xs)"
    by (intro Cons.IH) auto
  show ?case
  proof (cases "f a")
    case None
    with IH show ?thesis by simp
  next
    case (Some v)
    have "v \<notin> set (List.map_filter f xs)"
    proof
      assume "v \<in> set (List.map_filter f xs)"
      then obtain x where "x \<in> set xs" "f x = Some v"
        by (auto simp: set_map_filter)
      with Cons.prems(2) [of a x v] Some have "a = x" by simp
      with \<open>x \<in> set xs\<close> Cons.prems(1) show False by simp
    qed
    with IH Some show ?thesis by simp
  qed
qed

lemma map_filter_append:
  "List.map_filter f (xs @ ys) = List.map_filter f xs @ List.map_filter f ys"
  by (simp add: map_filter_def)

lemma map_filter_cong_on:
  "(\<And>x. x \<in> set xs \<Longrightarrow> f x = g x) \<Longrightarrow> List.map_filter f xs = List.map_filter g xs"
  by (induction xs) (simp_all split: option.splits)

lemma insort_key_before_last:
  "f x \<le> f y \<Longrightarrow> insort_key f x (zs @ [y]) = insort_key f x zs @ [y]"
  by (induction zs) simp_all

lemma foldr_insort_key_snoc:
  "(\<And>x. x \<in> set xs \<Longrightarrow> f x \<le> f y) \<Longrightarrow>
   foldr (insort_key f) xs (zs @ [y]) = foldr (insort_key f) xs zs @ [y]"
  by (induction xs) (simp_all add: insort_key_before_last)

lemma sort_key_snoc:
  assumes "\<And>x. x \<in> set xs \<Longrightarrow> f x \<le> f y"
  shows "sort_key f (xs @ [y]) = sort_key f xs @ [y]"
  using foldr_insort_key_snoc [of xs f y "[]"] assms by (simp add: sort_key_def)


lemma createMessage_fields:
  "messages (snd (createMessage im t rnd now st)) =
     (messages st)(msg_ident t rnd \<mapsto> fst (createMessage im t rnd now st))"
  "messagesBySession (snd (createMessage im t rnd now st)) =
     (messagesBySession st)(im_sessionId im \<mapsto>
        get_or_empty (messagesBySession st) (im_sessionId im) @ [msg_ident t rnd])"
  "m_timestamp (fst (createMessage im t rnd now st)) = now"
  by (simp_all add: createMessage_def Let_def split: option.splits)

section \<open>The index keeps the insertion order\<close>

lemma filter_fst_log:
  "map fst (filter (\<lambda>e. snd e = u) (filter (\<lambda>e. fst e \<noteq> i) log)) =
   filter (\<lambda>k. k \<noteq> i) (map fst (filter (\<lambda>e. snd e = u) log))"
  by (induction log) auto

lemma filter_absent: "i \<notin> set xs \<Longrightarrow> filter (\<lambda>k. k \<noteq> i) xs = xs"
  by (induction xs) auto

lemma remove1_as_filter: "distinct xs \<Longrightarrow> remove1 i xs = filter (\<lambda>k. k \<noteq> i) xs"
  by (induction xs) (auto simp: filter_absent)

lemma deleteChatSession_index_log:
  assumes ex: "sessions_exact st" and fl: "index_follows_log st log"
  shows "index_follows_log (deleteChatSession i st) (filter (\<lambda>e. fst e \<noteq> i) log)"
  unfolding index_follows_log_def
proof
  fix u
  let ?l = "get_or_empty (sessionsByUser st) u"
  have "get_or_empty (sessionsByUser (deleteChatSession i st)) u = filter (\<lambda>k. k \<noteq> i) ?l"
  proof (cases "chatSessions st i")
    case None
    have "i \<notin> set ?l"
      using ex None unfolding sessions_exact_def by fastforce
    with None show ?thesis
      by (simp add: deleteChatSession_def filter_absent)
  next
    case (Some S)
    show ?thesis
    proof (cases "u = s_userId S")
      case True
      have "distinct ?l"
        using ex unfolding sessions_exact_def by blast
      then have "remove1 i ?l = filter (\<lambda>k. k \<noteq> i) ?l"
        by (rule remove1_as_filter)
      with Some True show ?thesis
        by (simp add: deleteChatSession_def Let_def filter_absent)
    next
      case False
      have "i \<notin> set ?l"
        using ex Some False unfolding sessions_exact_def by fastforce
      with Some False show ?thesis
        by (simp add: deleteChatSession_def Let_def filter_absent)
    qed
  qed
  also have "\<dots> = filter (\<lambda>k. k \<noteq> i) (map fst (filter (\<lambda>e. snd e = u) log))"
    using fl by (simp add: index_follows_log_def)
  also have "\<dots> = map fst (filter (\<lambda>e. snd e = u) (filter (\<lambda>e. fst e \<noteq> i) log))"
    by (simp only: filter_fst_log)
  finally show "get_or_empty (sessionsByUser (deleteChatSession i st)) u =
      map fst (filter (\<lambda>e. snd e = u) (filter (\<lambda>e. fst e \<noteq> i) log))" .
qed

lemma step_index_follows_log:
  assumes "sessions_exact st" and "index_follows_log st log"
  shows "index_follows_log (step x st) (log_step x log)"
proof (cases x)
  case (DeleteChatSessionOp i)
  with assms show ?thesis by (simp add: deleteChatSession_index_log)
next
  case (CreateChatSessionOp ins t rnd now)
  with assms(2) show ?thesis
    by (simp add: index_follows_log_def createChatSession_def Let_def)
next
  case (UpsertUserOp ud now)
  with assms(2) show ?thesis
    by (simp add: index_follows_log_def upsertUser_def Let_def)
next
  case (CreateMessageOp im t rnd now)
  with assms(2) show ?thesis
    by (simp add: index_follows_log_def createMessage_def Let_def split: option.splits)
next
  case (DeleteMessageOp i)
  with assms(2) show ?thesis
    by (simp add: index_follows_log_def deleteMessage_def Let_def split: option.splits)
qed

lemma run_index_follows_log:
  "sessions_exact st \<Longrightarrow> no_session_collision ops st \<Longrightarrow> index_follows_log st log \<Longrightarrow>
   index_follows_log (run ops st) (fold log_step ops log)"
proof (induction ops arbitrary: st log)
  case Nil
  then show ?case by simp
next
  case (Cons x xs)
  from Cons.prems have "sessions_exact (step x st)" "no_session_collision xs (step x st)"
    "index_follows_log (step x st) (log_step x log)"
    by (simp_all add: step_sessions_exact step_index_follows_log)
  from Cons.IH [OF this] show ?case by simp
qed

lemma index_is_insertion_order:
  assumes "no_session_collision ops new_MemoryStorage"
  shows "get_or_empty (sessionsByUser (run ops new_MemoryStorage)) userId = insertion_order ops userId"
proof -
  have "sessions_exact (new_MemoryStorage :: ('a, 'b, 'c) MemoryStorage)"
    by (simp add: sessions_exact_def new_MemoryStorage_def)
  moreover have "index_follows_log (new_MemoryStorage :: ('a, 'b, 'c) MemoryStorage) []"
    by (simp add: index_follows_log_def new_MemoryStorage_def)
  ultimately have "index_follows_log (run ops new_MemoryStorage) (fold log_step ops [])"
    using assms by (intro run_index_follows_log)
  then show ?thesis
    by (simp add: index_follows_log_def insertion_order_def creation_log_def)
qed

lemma map_filter_resolved:
  "(\<And>k. k \<in> set l \<Longrightarrow> \<exists>x. f k = Some x \<and> g x = k) \<Longrightarrow> map g (List.map_filter f l) = l"
proof (induction l)
  case Nil
  then show ?case by simp
next
  case (Cons a l)
  from Cons.prems [of a] obtain x where "f a = Some x" "g x = a" by auto
  moreover from Cons have "map g (List.map_filter f l) = l" by simp
  ultimately show ?case by simp
qed

section \<open>Listing sessions\<close>

text \<open>
  Claim C4, as amended. In every store \<open>getAllChatSessions userId\<close> returns a list ordered
  by \<open>updatedAt\<close> descending. Let further the store be reached from the empty one by
  interface operations in which no \<open>createChatSession\<close> generated an identifier already in
  use. Then the result holds each session of the session map whose \<open>userId\<close> is \<open>userId\<close>,
  once, and nothing else; sessions with equal \<open>updatedAt\<close> appear in the order in which they
  were inserted, that is, as in the insertion order of the user's live sessions, each of
  which resolves to its session; and the result is empty when the session map has no
  session of that user.
\<close>

theorem getAllChatSessions_contract:
  "sorted_wrt (\<lambda>a b. s_updatedAt b \<le> s_updatedAt a) (getAllChatSessions userId st) \<and>
   (no_session_collision ops new_MemoryStorage \<longrightarrow>
      (let st' = run ops new_MemoryStorage; r = getAllChatSessions userId st' in
         (\<forall>x. x \<in> set r \<longleftrightarrow> (\<exists>k. chatSessions st' k = Some x) \<and> s_userId x = userId) \<and>
         distinct r \<and>
         map s_id (List.map_filter (chatSessions st') (insertion_order ops userId)) =
           insertion_order ops userId \<and>
         (\<forall>t. filter (\<lambda>x. s_updatedAt x = t) r =
              filter (\<lambda>x. s_updatedAt x = t)
                (List.map_filter (chatSessions st') (insertion_order ops userId))) \<and>
         ((\<forall>k x. chatSessions st' k = Some x \<longrightarrow> s_userId x \<noteq> userId) \<longrightarrow> r = [])))"
proof (intro conjI impI)
  have "sorted (map (\<lambda>x. - s_updatedAt x) (getAllChatSessions userId st))"
    by (simp add: getAllChatSessions_def)
  then show "sorted_wrt (\<lambda>a b. s_updatedAt b \<le> s_updatedAt a) (getAllChatSessions userId st)"
    by (simp add: sorted_map)
next
  assume free: "no_session_collision ops new_MemoryStorage"
  let ?st = "run ops new_MemoryStorage"
  let ?l = "get_or_empty (sessionsByUser ?st) userId"
  let ?xs = "List.map_filter (chatSessions ?st) ?l"
  let ?r = "getAllChatSessions userId ?st"
  note ic = run_index_consistent [OF new_index_consistent, of ops]
  note ie = reachable_sessions_exact [OF free]
  have order: "?l = insertion_order ops userId"
    by (rule index_is_insertion_order [OF free])
  have r: "?r = sort_key (\<lambda>x. - s_updatedAt x) ?xs"
    by (simp add: getAllChatSessions_def)
  have resolves: "\<exists>x. chatSessions ?st k = Some x \<and> s_id x = k" if "k \<in> set ?l" for k
  proof -
    from ie that obtain y where "chatSessions ?st k = Some y"
      unfolding sessions_exact_def by blast
    with ic show ?thesis
      unfolding index_consistent_def by blast
  qed
  have members: "x \<in> set ?r \<longleftrightarrow> (\<exists>k. chatSessions ?st k = Some x) \<and> s_userId x = userId" for x
  proof
    assume "x \<in> set ?r"
    then obtain k where k: "k \<in> set ?l" "chatSessions ?st k = Some x"
      by (auto simp: r set_map_filter)
    from ie k(1) obtain y where "chatSessions ?st k = Some y" "s_userId y = userId"
      unfolding sessions_exact_def by blast
    with k(2) show "(\<exists>k. chatSessions ?st k = Some x) \<and> s_userId x = userId" by auto
  next
    assume "(\<exists>k. chatSessions ?st k = Some x) \<and> s_userId x = userId"
    then obtain k where k: "chatSessions ?st k = Some x" and u: "s_userId x = userId" by blast
    from ic k have "k \<in> set (get_or_empty (sessionsByUser ?st) (s_userId x))"
      unfolding index_consistent_def by blast
    with k u show "x \<in> set ?r"
      by (auto simp: r set_map_filter)
  qed
  have "distinct ?l"
    using ie unfolding sessions_exact_def by blast
  moreover have "a = b" if "chatSessions ?st a = Some v" "chatSessions ?st b = Some v" for a b v
    using ic that unfolding index_consistent_def by metis
  ultimately have "distinct ?xs"
    by (intro distinct_map_filter) blast+
  then have dist: "distinct ?r"
    by (simp add: r)
  have in_order: "map s_id ?xs = ?l"
    using resolves by (intro map_filter_resolved) blast
  have ties: "filter (\<lambda>x. s_updatedAt x = t) ?r = filter (\<lambda>x. s_updatedAt x = t) ?xs" for t
    using sort_key_stable [of "\<lambda>x. - s_updatedAt x" "- t" ?xs] by (simp add: r)
  have none: "?r = []" if "\<forall>k x. chatSessions ?st k = Some x \<longrightarrow> s_userId x \<noteq> userId"
  proof -
    from that members have "x \<notin> set ?r" for x by blast
    then have "set ?r = {}" by (simp only: set_eq_iff empty_iff) simp
    then show ?thesis by (simp only: set_empty)
  qed
  from members dist in_order ties none
  show "let st' = run ops new_MemoryStorage; r = getAllChatSessions userId st' in
         (\<forall>x. x \<in> set r \<longleftrightarrow> (\<exists>k. chatSessions st' k = Some x) \<and> s_userId x = userId) \<and>
         distinct r \<and>
         map s_id (List.map_filter (chatSessions st') (insertion_order ops userId)) =
           insertion_order ops userId \<and>
         (\<forall>t. filter (\<lambda>x. s_updatedAt x = t) r =
              filter (\<lambda>x. s_updatedAt x = t)
                (List.map_filter (chatSessions st') (insertion_order ops userId))) \<and>
         ((\<forall>k x. chatSessions st' k = Some x \<longrightarrow> s_userId x \<noteq> userId) \<longrightarrow> r = [])"
    unfolding Let_def order [symmetric] by blast
qed

theorem getAllChatSessions_contract_witness:
  "no_session_collision tie_ops new_MemoryStorage \<and>
   map s_meta (getAllChatSessions ''u1'' (run tie_ops new_MemoryStorage)) = [''d'', ''a'', ''c''] \<and>
   insertion_order tie_ops ''u1'' =
     [''session_1700000000200_a1k9x2m4q'', ''session_1700000000200_c3p0v6n1y'',
      ''session_1700000000201_d4h8j3s5u''] \<and>
   distinct (getAllChatSessions ''u1'' (run tie_ops new_MemoryStorage)) \<and>
   sorted_wrt (\<lambda>a b. s_updatedAt b \<le> s_updatedAt a)
     (getAllChatSessions ''u1'' (run tie_ops new_MemoryStorage)) \<and>
   map s_id (filter (\<lambda>x. s_updatedAt x = 1700000000200)
               (getAllChatSessions ''u1'' (run tie_ops new_MemoryStorage))) =
     [''session_1700000000200_a1k9x2m4q'', ''session_1700000000200_c3p0v6n1y''] \<and>
   getAllChatSessions ''u2'' (run tie_ops new_MemoryStorage) = []"
proof -
  let ?st = "run tie_ops new_MemoryStorage"
  have free: "no_session_collision tie_ops new_MemoryStorage"
    by code_simp
  have listing: "map s_meta (getAllChatSessions ''u1'' ?st) = [''d'', ''a'', ''c'']"
    by code_simp
  have inserted: "insertion_order tie_ops ''u1'' =
     [''session_1700000000200_a1k9x2m4q'', ''session_1700000000200_c3p0v6n1y'',
      ''session_1700000000201_d4h8j3s5u'']"
    by code_simp
  have tied: "map s_id (filter (\<lambda>x. s_updatedAt x = 1700000000200)
      (List.map_filter (chatSessions ?st) (insertion_order tie_ops ''u1''))) =
     [''session_1700000000200_a1k9x2m4q'', ''session_1700000000200_c3p0v6n1y'']"
    by code_simp
  have no_entry: "get_or_empty (sessionsByUser ?st) ''u2'' = []"
    by code_simp
  have nobody: "\<forall>k x. chatSessions ?st k = Some x \<longrightarrow> s_userId x \<noteq> ''u2''"
  proof (intro allI impI notI)
    fix k x
    assume "chatSessions ?st k = Some x" "s_userId x = ''u2''"
    with run_index_consistent [OF new_index_consistent, of tie_ops]
    have "k \<in> set (get_or_empty (sessionsByUser ?st) ''u2'')"
      unfolding index_consistent_def by metis
    with no_entry show False by simp
  qed
  note sorted_part = getAllChatSessions_contract [of "''u1''" ?st, THEN conjunct1]
  note inst = getAllChatSessions_contract [where ops = tie_ops, THEN conjunct2, THEN mp, OF free,
      unfolded Let_def]
  from inst [of "''u1''"] have "distinct (getAllChatSessions ''u1'' ?st)"
    and "filter (\<lambda>x. s_updatedAt x = 1700000000200) (getAllChatSessions ''u1'' ?st) =
         filter (\<lambda>x. s_updatedAt x = 1700000000200)
           (List.map_filter (chatSessions ?st) (insertion_order tie_ops ''u1''))"
    by blast+
  moreover from inst [of "''u2''"] nobody have "getAllChatSessions ''u2'' ?st = []"
    by blast
  ultimately show ?thesis
    using free listing inserted tied sorted_part by simp
qed

text \<open>
  When the second of two sessions receives the identifier of the first, created for another
  user, the listing of the first user returns the session of the second user.
\<close>

theorem getAllChatSessions_foreign_session:
  "map s_userId
     (getAllChatSessions ''u1''
        (run [CreateChatSessionOp \<lparr>is_userId = ''u1'', is_meta = ''mine''\<rparr>
              1700000000110 ''a1k9x2m4q'' 1700000000110,
              CreateChatSessionOp \<lparr>is_userId = ''u2'', is_meta = ''theirs''\<rparr>
                    1700000000110 ''a1k9x2m4q'' 1700000000110]
           (new_MemoryStorage :: (string, string, string) MemoryStorage))) = [''u2'']"
  by code_simp

text \<open>
  Claim C5, as amended. Let the store be reached from the empty one by interface operations
  in which no \<open>createMessage\<close> generated an identifier already in use. Then \<open>getMessagesBySessionId
  sessionId\<close> returns each message of the message map whose \<open>sessionId\<close> is \<open>sessionId\<close>, once,
  and nothing else; the result is ordered by \<open>timestamp\<close> ascending; and it is empty when the
  message map has no message of that session. If then two messages are created in that
  session, again with identifiers not in use, at clock readings \<open>now1 \<le> now2\<close> that are not
  earlier than the timestamps already listed, the listing becomes the old listing followed
  by the first and then the second new message; for a session without messages it is
  \<open>[m1, m2]\<close>.
\<close>

theorem getMessagesBySessionId_contract:
  assumes "no_message_collision ops new_MemoryStorage"
  shows "let st = run ops new_MemoryStorage; r = getMessagesBySessionId sessionId st in
     (\<forall>m. m \<in> set r \<longleftrightarrow> (\<exists>k. messages st k = Some m) \<and> m_sessionId m = sessionId) \<and>
     distinct r \<and>
     sorted (map m_timestamp r) \<and>
     ((\<forall>k m. messages st k = Some m \<longrightarrow> m_sessionId m \<noteq> sessionId) \<longrightarrow> r = []) \<and>
     (\<forall>im1 t1 rnd1 now1 im2 t2 rnd2 now2.
        im_sessionId im1 = sessionId \<and> im_sessionId im2 = sessionId \<and>
        no_message_collision [CreateMessageOp im1 t1 rnd1 now1, CreateMessageOp im2 t2 rnd2 now2] st \<and>
        (\<forall>m \<in> set r. m_timestamp m \<le> now1) \<and> now1 \<le> now2 \<longrightarrow>
        getMessagesBySessionId sessionId
          (snd (createMessage im2 t2 rnd2 now2 (snd (createMessage im1 t1 rnd1 now1 st)))) =
        r @ [fst (createMessage im1 t1 rnd1 now1 st),
             fst (createMessage im2 t2 rnd2 now2 (snd (createMessage im1 t1 rnd1 now1 st)))])"
proof -
  let ?st = "run ops new_MemoryStorage"
  let ?l = "get_or_empty (messagesBySession ?st) sessionId"
  let ?xs = "List.map_filter (messages ?st) ?l"
  let ?r = "getMessagesBySessionId sessionId ?st"
  note ic = run_index_consistent [OF new_index_consistent, of ops]
  note ie = reachable_messages_exact [OF assms]
  have r: "?r = sort_key m_timestamp ?xs"
    by (simp add: getMessagesBySessionId_def)
  have listed: "\<exists>m. messages ?st k = Some m \<and> m_sessionId m = sessionId" if "k \<in> set ?l" for k
    using ie that unfolding messages_exact_def by blast
  have members: "m \<in> set ?r \<longleftrightarrow> (\<exists>k. messages ?st k = Some m) \<and> m_sessionId m = sessionId" for m
  proof
    assume "m \<in> set ?r"
    then obtain k where k: "k \<in> set ?l" "messages ?st k = Some m"
      by (auto simp: r set_map_filter)
    with listed [OF k(1)] show "(\<exists>k. messages ?st k = Some m) \<and> m_sessionId m = sessionId"
      by auto
  next
    assume "(\<exists>k. messages ?st k = Some m) \<and> m_sessionId m = sessionId"
    then obtain k where k: "messages ?st k = Some m" and u: "m_sessionId m = sessionId" by blast
    from ic k have "k \<in> set (get_or_empty (messagesBySession ?st) (m_sessionId m))"
      unfolding index_consistent_def by blast
    with k u show "m \<in> set ?r"
      by (auto simp: r set_map_filter)
  qed
  have "distinct ?l"
    using ie unfolding messages_exact_def by blast
  moreover have "a = b" if "messages ?st a = Some v" "messages ?st b = Some v" for a b v
    using ic that unfolding index_consistent_def by metis
  ultimately have "distinct ?xs"
    by (intro distinct_map_filter) blast+
  then have dist: "distinct ?r"
    by (simp add: r)
  have ordered: "sorted (map m_timestamp ?r)"
    by (simp add: r)
  have none: "?r = []" if "\<forall>k m. messages ?st k = Some m \<longrightarrow> m_sessionId m \<noteq> sessionId"
  proof -
    from that members have "x \<notin> set ?r" for x by blast
    then have "set ?r = {}" by (simp only: set_eq_iff empty_iff) simp
    then show ?thesis by (simp only: set_empty)
  qed
  have two: "getMessagesBySessionId sessionId
          (snd (createMessage im2 t2 rnd2 now2 (snd (createMessage im1 t1 rnd1 now1 ?st)))) =
        ?r @ [fst (createMessage im1 t1 rnd1 now1 ?st),
             fst (createMessage im2 t2 rnd2 now2 (snd (createMessage im1 t1 rnd1 now1 ?st)))]"
    if sid: "im_sessionId im1 = sessionId" "im_sessionId im2 = sessionId"
      and fresh: "no_message_collision [CreateMessageOp im1 t1 rnd1 now1, CreateMessageOp im2 t2 rnd2 now2] ?st"
      and old: "\<forall>m \<in> set ?r. m_timestamp m \<le> now1" and clock: "now1 \<le> now2"
    for im1 t1 rnd1 now1 im2 t2 rnd2 now2
  proof -
    let ?k1 = "msg_ident t1 rnd1" and ?k2 = "msg_ident t2 rnd2"
    let ?st1 = "snd (createMessage im1 t1 rnd1 now1 ?st)"
    let ?m1 = "fst (createMessage im1 t1 rnd1 now1 ?st)"
    let ?st2 = "snd (createMessage im2 t2 rnd2 now2 ?st1)"
    let ?m2 = "fst (createMessage im2 t2 rnd2 now2 ?st1)"
    from fresh have f1: "messages ?st ?k1 = None" and f2: "messages ?st1 ?k2 = None"
      by simp_all
    from f2 have distinct_keys: "?k2 \<noteq> ?k1" and f2': "messages ?st ?k2 = None"
      by (auto simp: createMessage_fields(1) split: if_splits)
    have not_listed: "?k1 \<notin> set ?l" "?k2 \<notin> set ?l"
      using listed f1 f2' by fastforce+
    have index2: "get_or_empty (messagesBySession ?st2) sessionId = ?l @ [?k1, ?k2]"
      by (simp add: createMessage_fields(2) sid)
    have map2: "messages ?st2 = (messages ?st)(?k1 \<mapsto> ?m1, ?k2 \<mapsto> ?m2)"
      by (simp add: createMessage_fields(1))
    have "List.map_filter (messages ?st2) ?l = ?xs"
      using not_listed by (intro map_filter_cong_on) (auto simp: map2)
    then have resolved: "List.map_filter (messages ?st2) (?l @ [?k1, ?k2]) = ?xs @ [?m1] @ [?m2]"
      using distinct_keys by (simp add: map_filter_append map2)
    have stamps: "m_timestamp ?m1 = now1" "m_timestamp ?m2 = now2"
      by (simp_all add: createMessage_fields(3))
    from old have below: "m_timestamp x \<le> now1" if "x \<in> set ?xs" for x
      using that by (simp add: r)
    have "sort_key m_timestamp ((?xs @ [?m1]) @ [?m2]) = sort_key m_timestamp (?xs @ [?m1]) @ [?m2]"
      using below clock stamps by (intro sort_key_snoc) fastforce
    also have "sort_key m_timestamp (?xs @ [?m1]) = sort_key m_timestamp ?xs @ [?m1]"
      using below stamps by (intro sort_key_snoc) auto
    finally have "sort_key m_timestamp (?xs @ [?m1] @ [?m2]) = ?r @ [?m1, ?m2]"
      by (simp add: r)
    then show ?thesis
      by (simp add: getMessagesBySessionId_def [of sessionId ?st2] index2 resolved)
  qed
  from members dist ordered none two show ?thesis
    unfolding Let_def by blast
qed

theorem getMessagesBySessionId_contract_witness:
  "no_message_collision setup_ops new_MemoryStorage \<and>
   no_message_collision
     [CreateMessageOp \<lparr>im_sessionId = ''session_1700000000110_a1k9x2m4q'', im_content = ''hello''\<rparr>
           1700000000130 ''c3p0v6n1y'' 1700000000130,
      CreateMessageOp \<lparr>im_sessionId = ''session_1700000000110_a1k9x2m4q'', im_content = ''again''\<rparr>
            1700000000140 ''d4h8j3s5u'' 1700000000140]
     setup_store \<and>
   getMessagesBySessionId ''session_1700000000110_a1k9x2m4q'' setup_store = [] \<and>
   getMessagesBySessionId ''session_1700000000110_a1k9x2m4q''
     (snd (createMessage \<lparr>im_sessionId = ''session_1700000000110_a1k9x2m4q'', im_content = ''again''\<rparr>
           1700000000140 ''d4h8j3s5u'' 1700000000140
        (snd (createMessage \<lparr>im_sessionId = ''session_1700000000110_a1k9x2m4q'', im_content = ''hello''\<rparr>
              1700000000130 ''c3p0v6n1y'' 1700000000130
           setup_store)))) =
     [\<lparr>m_id = ''msg_1700000000130_c3p0v6n1y'', m_sessionId = ''session_1700000000110_a1k9x2m4q'', m_content = ''hello'',
       m_timestamp = 1700000000130\<rparr>,
      \<lparr>m_id = ''msg_1700000000140_d4h8j3s5u'', m_sessionId = ''session_1700000000110_a1k9x2m4q'', m_content = ''again'',
       m_timestamp = 1700000000140\<rparr>] \<and>
   distinct (getMessagesBySessionId ''session_1700000000110_a1k9x2m4q'' example_store) \<and>
   sorted (map m_timestamp (getMessagesBySessionId ''session_1700000000110_a1k9x2m4q'' example_store))"
proof -
  let ?im1 = "\<lparr>im_sessionId = ''session_1700000000110_a1k9x2m4q'', im_content = ''hello''\<rparr>"
  let ?im2 = "\<lparr>im_sessionId = ''session_1700000000110_a1k9x2m4q'', im_content = ''again''\<rparr>"
  have free: "no_message_collision setup_ops new_MemoryStorage"
    by code_simp
  have free2: "no_message_collision [CreateMessageOp ?im1 1700000000130 ''c3p0v6n1y'' 1700000000130, CreateMessageOp ?im2 1700000000140 ''d4h8j3s5u'' 1700000000140]
      setup_store"
    by code_simp
  have before: "getMessagesBySessionId ''session_1700000000110_a1k9x2m4q'' setup_store = []"
    by code_simp
  have m1: "fst (createMessage ?im1 1700000000130 ''c3p0v6n1y'' 1700000000130 setup_store) =
      \<lparr>m_id = ''msg_1700000000130_c3p0v6n1y'', m_sessionId = ''session_1700000000110_a1k9x2m4q'', m_content = ''hello'',
       m_timestamp = 1700000000130\<rparr>"
    by code_simp
  have m2: "fst (createMessage ?im2 1700000000140 ''d4h8j3s5u'' 1700000000140 (snd (createMessage ?im1 1700000000130 ''c3p0v6n1y'' 1700000000130 setup_store))) =
      \<lparr>m_id = ''msg_1700000000140_d4h8j3s5u'', m_sessionId = ''session_1700000000110_a1k9x2m4q'', m_content = ''again'',
       m_timestamp = 1700000000140\<rparr>"
    by code_simp
  have free3: "no_message_collision example_ops new_MemoryStorage"
    by code_simp
  note inst = getMessagesBySessionId_contract [OF free, of "''session_1700000000110_a1k9x2m4q''",
      unfolded Let_def, folded setup_store_def]
  from inst have "im_sessionId ?im1 = ''session_1700000000110_a1k9x2m4q'' \<and> im_sessionId ?im2 = ''session_1700000000110_a1k9x2m4q'' \<and>
        no_message_collision [CreateMessageOp ?im1 1700000000130 ''c3p0v6n1y'' 1700000000130, CreateMessageOp ?im2 1700000000140 ''d4h8j3s5u'' 1700000000140] setup_store \<and>
        (\<forall>m \<in> set (getMessagesBySessionId ''session_1700000000110_a1k9x2m4q'' setup_store). m_timestamp m \<le> 1700000000130) \<and>
        (1700000000130::int) \<le> 1700000000140 \<longrightarrow>
        getMessagesBySessionId ''session_1700000000110_a1k9x2m4q''
          (snd (createMessage ?im2 1700000000140 ''d4h8j3s5u'' 1700000000140 (snd (createMessage ?im1 1700000000130 ''c3p0v6n1y'' 1700000000130 setup_store)))) =
        getMessagesBySessionId ''session_1700000000110_a1k9x2m4q'' setup_store @
          [fst (createMessage ?im1 1700000000130 ''c3p0v6n1y'' 1700000000130 setup_store),
           fst (createMessage ?im2 1700000000140 ''d4h8j3s5u'' 1700000000140 (snd (createMessage ?im1 1700000000130 ''c3p0v6n1y'' 1700000000130 setup_store)))]"
    by blast
  with free2 before m1 m2
  have two: "getMessagesBySessionId ''session_1700000000110_a1k9x2m4q''
          (snd (createMessage ?im2 1700000000140 ''d4h8j3s5u'' 1700000000140 (snd (createMessage ?im1 1700000000130 ''c3p0v6n1y'' 1700000000130 setup_store)))) =
     [\<lparr>m_id = ''msg_1700000000130_c3p0v6n1y'', m_sessionId = ''session_1700000000110_a1k9x2m4q'', m_content = ''hello'',
       m_timestamp = 1700000000130\<rparr>,
      \<lparr>m_id = ''msg_1700000000140_d4h8j3s5u'', m_sessionId = ''session_1700000000110_a1k9x2m4q'', m_content = ''again'',
       m_timestamp = 1700000000140\<rparr>]"
    by simp
  from getMessagesBySessionId_contract [OF free3, of "''session_1700000000110_a1k9x2m4q''", unfolded Let_def,
      folded example_store_def]
  have "distinct (getMessagesBySessionId ''session_1700000000110_a1k9x2m4q'' example_store)"
    and "sorted (map m_timestamp (getMessagesBySessionId ''session_1700000000110_a1k9x2m4q'' example_store))"
    by blast+
  with free free2 before two show ?thesis by simp
qed

text \<open>
  Two failures of the listing. When a message created for the second session receives the
  identifier of a message of the first session, the listing of the first session returns
  the message of the second. And when the clock is set back between two creations in one
  session, the listing returns the second message before the first.
\<close>

theorem getMessagesBySessionId_foreign_or_reversed:
  "map m_sessionId
     (getMessagesBySessionId ''session_1700000000110_a1k9x2m4q''
        (run [CreateMessageOp \<lparr>im_sessionId = ''session_1700000000110_a1k9x2m4q'', im_content = ''one''\<rparr>
              1700000000130 ''c3p0v6n1y'' 1700000000130,
              CreateMessageOp \<lparr>im_sessionId = ''session_1700000000120_b2r7t5w8z'', im_content = ''two''\<rparr>
                    1700000000130 ''c3p0v6n1y'' 1700000000130]
           setup_store)) = [''session_1700000000120_b2r7t5w8z''] \<and>
   map m_content
     (getMessagesBySessionId ''session_1700000000110_a1k9x2m4q''
        (run [CreateMessageOp \<lparr>im_sessionId = ''session_1700000000110_a1k9x2m4q'', im_content = ''m1''\<rparr>
              1700000000200 ''c3p0v6n1y'' 1700000000200,
              CreateMessageOp \<lparr>im_sessionId = ''session_1700000000110_a1k9x2m4q'', im_content = ''m2''\<rparr>
                    1700000000150 ''d4h8j3s5u'' 1700000000150]
           setup_store)) = [''m2'', ''m1'']"
  by code_simp

end
